theory Spec2Isabelle
  imports Main
begin

section \<open>EasyDB client: schema validation and construction\<close>

text \<open>
  A shallow embedding of \<^verbatim>\<open>asst1/easydb/checks.py\<close> and of the class
  \<^verbatim>\<open>Database\<close> of \<^verbatim>\<open>asst1/easydb/easydb.py\<close>.

  The Python code is dynamically typed, so the values it receives are modelled by one
  datatype. A \<^verbatim>\<open>str\<close> is a list of characters read as code points below 256;
  the constructors \<open>PStrType\<close>, \<open>PIntType\<close> and \<open>PFloatType\<close> stand for the type
  objects \<^verbatim>\<open>str\<close>, \<^verbatim>\<open>int\<close> and \<^verbatim>\<open>float\<close> that a table definition uses
  as column-type markers. Dictionaries, sets, generators and objects with user-defined
  comparison are not modelled.
\<close>

subsection \<open>Python values\<close>

datatype pyval =
    PNone
  | PBool bool
  | PInt int
  | PStr string
  | PStrType
  | PIntType
  | PFloatType
  | PList "pyval list"
  | PTuple "pyval list"

text \<open>
  Exceptions, by kind. The first seven are raised by \<^verbatim>\<open>checks.py\<close>:
  \<open>NotAString\<close> is its \<^verbatim>\<open>TypeError\<close>; \<open>MustStartWithLetter\<close>,
  \<open>InvalidCharacters\<close>, \<open>DuplicateName\<close> and \<open>UnsupportedColumnType\<close> are its
  \<^verbatim>\<open>ValueError\<close>s; \<open>SelfReferencingForeignKey\<close> and \<open>UnknownForeignKeyTarget\<close>
  are its \<^verbatim>\<open>IntegrityError\<close>s. The others are raised by the interpreter:
  \<open>IndexError\<close> by an index out of range, \<open>NotSubscriptable\<close> and \<open>NotIterable\<close>
  (both \<^verbatim>\<open>TypeError\<close>) by \<^verbatim>\<open>x[i]\<close> and by \<^verbatim>\<open>for ... in x\<close> on a value that
  supports neither.
\<close>

datatype error =
    NotAString
  | MustStartWithLetter
  | InvalidCharacters
  | DuplicateName
  | SelfReferencingForeignKey
  | UnknownForeignKeyTarget
  | UnsupportedColumnType
  | IndexError
  | NotSubscriptable
  | NotIterable

text \<open>\<^verbatim>\<open>iter(obj)\<close>: the items a loop over \<open>obj\<close> visits, \<open>None\<close> where
  \<^verbatim>\<open>iter\<close> raises \<^verbatim>\<open>TypeError\<close>. A string yields its characters as strings of
  length one.\<close>

fun py_iter :: "pyval \<Rightarrow> pyval list option" where
  "py_iter (PStr s) = Some (map (\<lambda>c. PStr [c]) s)"
| "py_iter (PList xs) = Some xs"
| "py_iter (PTuple xs) = Some xs"
| "py_iter _ = None"

text \<open>\<^verbatim>\<open>obj[i]\<close> for an index \<open>i \<ge> 0\<close>.\<close>

fun py_getitem :: "pyval \<Rightarrow> nat \<Rightarrow> error + pyval" where
  "py_getitem (PStr s) i = (if i < length s then Inr (PStr [s ! i]) else Inl IndexError)"
| "py_getitem (PList xs) i = (if i < length xs then Inr (xs ! i) else Inl IndexError)"
| "py_getitem (PTuple xs) i = (if i < length xs then Inr (xs ! i) else Inl IndexError)"
| "py_getitem _ i = Inl NotSubscriptable"

text \<open>\<^verbatim>\<open>isinstance(v, str)\<close>.\<close>

fun isinstance_str :: "pyval \<Rightarrow> bool" where
  "isinstance_str (PStr s) = True"
| "isinstance_str _ = False"

text \<open>\<^verbatim>\<open>v != False\<close>: Python compares \<^verbatim>\<open>False\<close> equal to itself and to the
  integer 0, and unequal to every other value of the model.\<close>

fun not_False :: "pyval \<Rightarrow> bool" where
  "not_False (PBool b) = b"
| "not_False (PInt n) = (n \<noteq> 0)"
| "not_False _ = True"

text \<open>\<^verbatim>\<open>c.isalpha()\<close> on one character: the letters among the code points below 256
  (Unicode categories Lu, Ll, Lo).\<close>

definition isalpha_char :: "char \<Rightarrow> bool" where
  "isalpha_char c =
     (let n = (of_char c :: nat) in
        (65 \<le> n \<and> n \<le> 90) \<or> (97 \<le> n \<and> n \<le> 122) \<or> n = 170 \<or> n = 181 \<or> n = 186 \<or>
        (192 \<le> n \<and> n \<le> 214) \<or> (216 \<le> n \<and> n \<le> 246) \<or> (248 \<le> n \<and> n \<le> 255))"

text \<open>\<^verbatim>\<open>v.isalpha()\<close> for a string \<open>v\<close>: non-empty and letters only.\<close>

fun isalpha :: "pyval \<Rightarrow> bool" where
  "isalpha (PStr s) = (s \<noteq> [] \<and> list_all isalpha_char s)"
| "isalpha _ = False"

text \<open>The character class \<^verbatim>\<open>[A-Za-z0-9_]\<close>.\<close>

definition word_char :: "char \<Rightarrow> bool" where
  "word_char c =
     (let n = (of_char c :: nat) in
        (65 \<le> n \<and> n \<le> 90) \<or> (97 \<le> n \<and> n \<le> 122) \<or> (48 \<le> n \<and> n \<le> 57) \<or> n = 95)"

text \<open>\<^verbatim>\<open>re.match("^[A-Za-z0-9_]*$", s) != None\<close>. Without the MULTILINE flag
  \<^verbatim>\<open>$\<close> matches at the end of the string and also just before a newline that ends
  the string.\<close>

definition re_match_name :: "string \<Rightarrow> bool" where
  "re_match_name s =
     (list_all word_char s \<or>
      (s \<noteq> [] \<and> last s = char_of (10::nat) \<and> list_all word_char (butlast s)))"

subsection \<open>checks.py\<close>

text \<open>\<^verbatim>\<open>iterable_check\<close> catches the \<^verbatim>\<open>TypeError\<close> of \<^verbatim>\<open>iter\<close>, prints
  a message and returns \<^verbatim>\<open>False\<close>; otherwise it falls off its end and returns
  \<^verbatim>\<open>None\<close>. The result is the list of printed lines and the returned value.\<close>

definition iterable_check :: "pyval \<Rightarrow> string list \<times> pyval" where
  "iterable_check obj =
     (case py_iter obj of
        None \<Rightarrow> ([''item is not iterable''], PBool False)
      | Some items \<Rightarrow> ([], PNone))"

text \<open>The loop \<^verbatim>\<open>for name in existing_names: if candidate == name: raise ValueError\<close>
  that ends both name checks; they return \<^verbatim>\<open>None\<close> when the loop finishes. The
  candidate is a string there, and Python's \<^verbatim>\<open>==\<close> of a string with a value of the
  model is equality of the model.\<close>

fun duplicate_scan :: "pyval \<Rightarrow> pyval list \<Rightarrow> error + pyval" where
  "duplicate_scan candidate [] = Inr PNone"
| "duplicate_scan candidate (name # rest) =
     (if candidate = name then Inl DuplicateName else duplicate_scan candidate rest)"

definition table_name_check :: "pyval \<Rightarrow> pyval list \<Rightarrow> error + pyval" where
  "table_name_check table_name existing_names =
     (if \<not> isinstance_str table_name then Inl NotAString
      else case py_getitem table_name 0 of
        Inl e \<Rightarrow> Inl e
      | Inr first \<Rightarrow>
          if \<not> isalpha first then Inl MustStartWithLetter
          else if \<not> (case table_name of PStr s \<Rightarrow> re_match_name s | _ \<Rightarrow> False)
            then Inl InvalidCharacters
          else duplicate_scan table_name existing_names)"

definition column_name_check :: "pyval \<Rightarrow> pyval list \<Rightarrow> error + pyval" where
  "column_name_check col_name existing_names =
     (if \<not> isinstance_str col_name then Inl NotAString
      else case py_getitem col_name 0 of
        Inl e \<Rightarrow> Inl e
      | Inr first \<Rightarrow>
          if \<not> isalpha first then Inl MustStartWithLetter
          else if \<not> (case col_name of PStr s \<Rightarrow> re_match_name s | _ \<Rightarrow> False)
            then Inl InvalidCharacters
          else duplicate_scan col_name existing_names)"

text \<open>\<^verbatim>\<open>column_type_check\<close>: \<^verbatim>\<open>existing_table_names[table_index]\<close> raises
  \<^verbatim>\<open>IndexError\<close> out of range; \<^verbatim>\<open>not in\<close> compares with \<^verbatim>\<open>==\<close>.\<close>

definition column_type_check :: "pyval \<Rightarrow> nat \<Rightarrow> pyval list \<Rightarrow> error + pyval" where
  "column_type_check ctype table_index existing_table_names =
     (if isinstance_str ctype then
        (if \<not> table_index < length existing_table_names then Inl IndexError
         else if ctype = existing_table_names ! table_index then Inl SelfReferencingForeignKey
         else if ctype \<notin> set existing_table_names then Inl UnknownForeignKeyTarget
         else Inr PNone)
      else if ctype \<noteq> PStrType \<and> ctype \<noteq> PIntType \<and> ctype \<noteq> PFloatType
        then Inl UnsupportedColumnType
      else Inr PNone)"

subsection \<open>easydb.py: the Database handle\<close>

record database =
  schema :: pyval
  table_names :: "pyval list"
  table_count :: nat
  table_col_count :: "nat list"
  column :: "pyval list list"
  col_type :: "pyval list list"
  pk :: int
  version :: int

text \<open>An exception leaves the handle as it was when the exception was raised: a
  failing step returns the kind of the exception with that state.\<close>

type_synonym 'a result = "(error \<times> database) + 'a"

definition and_then :: "'a result \<Rightarrow> ('a \<Rightarrow> 'b result) \<Rightarrow> 'b result" where
  "and_then m f = (case m of Inl e \<Rightarrow> Inl e | Inr x \<Rightarrow> f x)"

definition raised_in :: "database \<Rightarrow> error + 'a \<Rightarrow> 'a result" where
  "raised_in db m = (case m of Inl e \<Rightarrow> Inl (e, db) | Inr x \<Rightarrow> Inr x)"

text \<open>\<^verbatim>\<open>self.column[self.table_count].append(v)\<close>\<close>

definition column_append :: "pyval \<Rightarrow> database \<Rightarrow> database result" where
  "column_append v db =
     (let i = table_count db in
      if i < length (column db)
      then Inr (db\<lparr>column := (column db)[i := column db ! i @ [v]]\<rparr>)
      else Inl (IndexError, db))"

text \<open>\<^verbatim>\<open>self.table_col_count[self.table_count] += 1\<close>\<close>

definition col_count_incr :: "database \<Rightarrow> database result" where
  "col_count_incr db =
     (let i = table_count db in
      if i < length (table_col_count db)
      then Inr (db\<lparr>table_col_count := (table_col_count db)[i := table_col_count db ! i + 1]\<rparr>)
      else Inl (IndexError, db))"

text \<open>\<^verbatim>\<open>self.col_type[self.table_count].append(v)\<close>\<close>

definition col_type_append :: "pyval \<Rightarrow> database \<Rightarrow> database result" where
  "col_type_append v db =
     (let i = table_count db in
      if i < length (col_type db)
      then Inr (db\<lparr>col_type := (col_type db)[i := col_type db ! i @ [v]]\<rparr>)
      else Inl (IndexError, db))"

text \<open>The body of the inner loop of \<^verbatim>\<open>__init__\<close> (lines 35 to 40) for one column
  definition \<open>columns\<close>. Where \<open>column_append\<close> has succeeded the index
  \<open>table_count\<close> is in range of \<open>column\<close>, so the read of
  \<^verbatim>\<open>self.column[self.table_count]\<close> that follows does not raise.\<close>

definition column_body :: "pyval \<Rightarrow> database \<Rightarrow> database result" where
  "column_body columns db =
     and_then (column_append (PList []) db) (\<lambda>db1.
     and_then (raised_in db1 (py_getitem columns 0)) (\<lambda>c0.
     and_then (raised_in db1 (column_name_check c0 (column db1 ! table_count db1))) (\<lambda>r.
     and_then (if not_False r
               then and_then (column_append c0 db1) col_count_incr
               else Inr db1) (\<lambda>db2.
     and_then (raised_in db2 (py_getitem columns 1)) (\<lambda>c1.
     and_then (raised_in db2 (column_type_check c1 (table_count db2) (table_names db2))) (\<lambda>r'.
     if not_False r' then col_type_append c1 db2 else Inr db2))))))"

text \<open>\<^verbatim>\<open>for columns in tables[self.table_count][1]: ...\<close> over the items of the
  iteration.\<close>

fun column_loop :: "pyval list \<Rightarrow> database \<Rightarrow> database result" where
  "column_loop [] db = Inr db"
| "column_loop (columns # rest) db = and_then (column_body columns db) (column_loop rest)"

text \<open>Lines 30 to 33: a table whose name is accepted gets its entry in each array.\<close>

definition register_table :: "pyval \<Rightarrow> database \<Rightarrow> database" where
  "register_table t0 db =
     db\<lparr>table_names := table_names db @ [t0],
        column := column db @ [[]],
        col_type := col_type db @ [[]],
        table_col_count := table_col_count db @ [0]\<rparr>"

text \<open>The body of the outer loop (lines 29 to 41) for one table definition \<open>table\<close>.
  The column definitions are read from \<^verbatim>\<open>tables[self.table_count]\<close>, not from
  \<open>table\<close>.\<close>

definition table_body :: "pyval \<Rightarrow> pyval \<Rightarrow> database \<Rightarrow> database result" where
  "table_body tables table db =
     and_then (raised_in db (py_getitem table 0)) (\<lambda>t0.
     and_then (raised_in db (table_name_check t0 (table_names db))) (\<lambda>r.
     if not_False r then
       (let db1 = register_table t0 db in
        and_then (raised_in db1 (py_getitem tables (table_count db1))) (\<lambda>entry.
        and_then (raised_in db1 (py_getitem entry 1)) (\<lambda>cols.
        and_then (case py_iter cols of None \<Rightarrow> Inl (NotIterable, db1)
                                      | Some items \<Rightarrow> column_loop items db1) (\<lambda>db2.
        Inr (db2\<lparr>table_count := table_count db2 + 1\<rparr>)))))
     else Inr db))"

fun table_loop :: "pyval \<Rightarrow> pyval list \<Rightarrow> database \<Rightarrow> database result" where
  "table_loop tables [] db = Inr db"
| "table_loop tables (table # rest) db =
     and_then (table_body tables table db) (table_loop tables rest)"

text \<open>The fields as the first lines of \<^verbatim>\<open>__init__\<close> set them.\<close>

definition empty_database :: database where
  "empty_database =
     \<lparr>schema = PTuple [], table_names = [], table_count = 0, table_col_count = [],
      column = [], col_type = [], pk = 1, version = 0\<rparr>"

text \<open>\<^verbatim>\<open>Database(tables)\<close>: the lines printed and either the handle, or the exception
  with the state of the handle when it was raised.\<close>

definition Database_init :: "pyval \<Rightarrow> string list \<times> database result" where
  "Database_init tables =
     (let (out, ok) = iterable_check tables in
      if not_False ok then
        (case py_iter tables of
           None \<Rightarrow> (out, Inl (NotIterable, empty_database\<lparr>schema := tables\<rparr>))
         | Some items \<Rightarrow> (out, table_loop tables items (empty_database\<lparr>schema := tables\<rparr>)))
      else (out, Inr empty_database))"

text \<open>\<^verbatim>\<open>insert\<close>. The function \<^verbatim>\<open>insert_check\<close> it calls is defined in no file
  of the sources, so it is a parameter: it raises or returns a value, which
  \<^verbatim>\<open>insert\<close> compares with \<^verbatim>\<open>False\<close>. The result is the returned pair and the
  handle after the call.\<close>

type_synonym row_check =
  "pyval \<Rightarrow> pyval \<Rightarrow> pyval list \<Rightarrow> nat list \<Rightarrow> pyval list list \<Rightarrow> error + pyval"

definition Database_insert ::
  "row_check \<Rightarrow> database \<Rightarrow> pyval \<Rightarrow> pyval \<Rightarrow> ((int \<times> int) \<times> database) result" where
  "Database_insert insert_check db table_name vals =
     and_then (raised_in db
        (insert_check table_name vals (table_names db) (table_col_count db) (col_type db))) (\<lambda>r.
     let db' = (if not_False r then db\<lparr>pk := pk db + 1\<rparr> else db)
     in Inr ((pk db', version db'), db'))"

text \<open>A handle is one that \<^verbatim>\<open>Database(tables)\<close> returned, after any number of
  calls of \<^verbatim>\<open>insert\<close> that returned.\<close>

inductive reachable :: "row_check \<Rightarrow> database \<Rightarrow> bool" for insert_check :: row_check where
  constructed: "snd (Database_init tables) = Inr db \<Longrightarrow> reachable insert_check db"
| inserted: "reachable insert_check db \<Longrightarrow>
     Database_insert insert_check db table_name vals = Inr (res, db') \<Longrightarrow>
     reachable insert_check db'"

subsection \<open>Notions used to state the properties\<close>

text \<open>The column definitions of table \<open>i\<close>, as the builder reads them: the items of
  \<^verbatim>\<open>tables[i][1]\<close>.\<close>

definition column_defs :: "pyval \<Rightarrow> nat \<Rightarrow> pyval list option" where
  "column_defs tables i =
     (case py_getitem tables i of
        Inl e \<Rightarrow> None
      | Inr entry \<Rightarrow> (case py_getitem entry 1 of Inl e \<Rightarrow> None | Inr cols \<Rightarrow> py_iter cols))"

text \<open>A list of names with an empty list before each of them.\<close>

fun with_placeholders :: "pyval list \<Rightarrow> pyval list" where
  "with_placeholders [] = []"
| "with_placeholders (n # ns) = PList [] # n # with_placeholders ns"

text \<open>The column types of the data model, and the type that a stored marker stands for:
  a string names the table a foreign key refers to.\<close>

datatype primitive = String | Integer | Float

datatype column_type = Primitive primitive | ForeignKey string

fun type_of_marker :: "pyval \<Rightarrow> column_type option" where
  "type_of_marker PStrType = Some (Primitive String)"
| "type_of_marker PIntType = Some (Primitive Integer)"
| "type_of_marker PFloatType = Some (Primitive Float)"
| "type_of_marker (PStr s) = Some (ForeignKey s)"
| "type_of_marker _ = None"

text \<open>What holds of table \<open>i\<close> of a handle once the builder has finished the table.\<close>

definition table_built :: "pyval \<Rightarrow> database \<Rightarrow> nat \<Rightarrow> bool" where
  "table_built tables db i \<longleftrightarrow>
     (\<exists>items names types.
        column_defs tables i = Some items \<and>
        list_all2 (\<lambda>c v. py_getitem c 0 = Inr v) items names \<and>
        list_all2 (\<lambda>c v. py_getitem c 1 = Inr v) items types \<and>
        column db ! i = with_placeholders names \<and>
        col_type db ! i = types \<and>
        table_col_count db ! i = length items)"

text \<open>The invariant of the outer loop.\<close>

definition schema_inv :: "pyval \<Rightarrow> database \<Rightarrow> bool" where
  "schema_inv tables db \<longleftrightarrow>
     length (table_names db) = table_count db \<and>
     length (column db) = table_count db \<and>
     length (col_type db) = table_count db \<and>
     length (table_col_count db) = table_count db \<and>
     pk db = 1 \<and> version db = 0 \<and>
     (\<forall>i<table_count db. table_built tables db i)"

text \<open>The two definition lists of the end-to-end examples.\<close>

definition users_posts :: pyval where
  "users_posts =
     PList [PTuple [PStr ''users'', PList [PTuple [PStr ''name'', PStrType],
                                           PTuple [PStr ''age'', PIntType]]],
            PTuple [PStr ''posts'', PList [PTuple [PStr ''author'', PStr ''users'']]]]"

definition self_ref :: pyval where
  "self_ref = PList [PTuple [PStr ''a'', PList [PTuple [PStr ''self_ref'', PStr ''a'']]]]"

text \<open>The kind of the exception that ended a call, if one did.\<close>

definition raised :: "'a result \<Rightarrow> error option" where
  "raised res = (case res of Inl (e, db) \<Rightarrow> Some e | Inr x \<Rightarrow> None)"

text \<open>The handle that the first example yields.\<close>

definition users_posts_db :: database where
  "users_posts_db =
     \<lparr>schema = users_posts,
      table_names = [PStr ''users'', PStr ''posts''],
      table_count = 2,
      table_col_count = [2, 1],
      column = [[PList [], PStr ''name'', PList [], PStr ''age''], [PList [], PStr ''author'']],
      col_type = [[PStrType, PIntType], [PStr ''users'']],
      pk = 1, version = 0\<rparr>"

text \<open>Further definition lists: a self-reference behind a column name that starts with a
  digit, a reference to a table declared later, the same table name twice, and two table
  names that differ in case only.\<close>

definition bad_column_self_ref :: pyval where
  "bad_column_self_ref = PList [PTuple [PStr ''a'', PList [PTuple [PStr ''1x'', PStr ''a'']]]]"

definition forward_ref :: pyval where
  "forward_ref =
     PList [PTuple [PStr ''posts'', PList [PTuple [PStr ''title'', PStrType],
                                           PTuple [PStr ''author'', PStr ''users'']]],
            PTuple [PStr ''users'', PList [PTuple [PStr ''name'', PStrType]]]]"



text \<open>A row check for the examples of \<^verbatim>\<open>insert\<close>: it accepts the rows of the tables
  of the schema. The handle \<open>one_table\<close> is the one built from
  \<^verbatim>\<open>[("t", [])]\<close>.\<close>

definition known_table :: row_check where
  "known_table t v names counts types = (if t \<in> set names then Inr PNone else Inr (PBool False))"

definition one_table :: database where
  "one_table =
     \<lparr>schema = PList [PTuple [PStr ''t'', PList []]], table_names = [PStr ''t''],
      table_count = 1, table_col_count = [0], column = [[]], col_type = [[]],
      pk = 1, version = 0\<rparr>"


text \<open>A reference to a table declared later, behind a column name that starts with a
  digit.\<close>

definition bad_column_forward_ref :: pyval where
  "bad_column_forward_ref =
     PList [PTuple [PStr ''posts'', PList [PTuple [PStr ''1x'', PStr ''users'']]],
            PTuple [PStr ''users'', PList []]]"

section \<open>Properties\<close>

lemmas model_defs =
  Database_init_def iterable_check_def empty_database_def table_body_def register_table_def
  column_body_def column_append_def col_count_incr_def col_type_append_def
  and_then_def raised_in_def table_name_check_def column_name_check_def column_type_check_def
  isalpha_char_def word_char_def re_match_name_def

subsection \<open>The checks return \<open>None\<close> or raise\<close>

lemma duplicate_scan_Inr: "duplicate_scan c ns = Inr r \<Longrightarrow> r = PNone"
  by (induction ns) (auto split: if_splits)


lemma duplicate_scan_fresh: "c \<notin> set ns \<Longrightarrow> duplicate_scan c ns = Inr PNone"
  by (induction ns) auto

lemma table_name_check_Inr: "table_name_check c ns = Inr r \<Longrightarrow> r = PNone"
  by (auto simp: table_name_check_def split: if_splits sum.splits dest: duplicate_scan_Inr)

lemma column_name_check_Inr: "column_name_check c ns = Inr r \<Longrightarrow> r = PNone"
  by (auto simp: column_name_check_def split: if_splits sum.splits dest: duplicate_scan_Inr)

lemma column_type_check_Inr: "column_type_check c i ns = Inr r \<Longrightarrow> r = PNone"
  by (auto simp: column_type_check_def split: if_splits)

subsection \<open>The loops of the builder\<close>

lemma with_placeholders_append:
  "with_placeholders (xs @ ys) = with_placeholders xs @ with_placeholders ys"
  by (induction xs) simp_all


lemma column_body_Inr:
  assumes "column_body c db = Inr db'"
  shows "\<exists>c0 c1. py_getitem c 0 = Inr c0 \<and> py_getitem c 1 = Inr c1 \<and>
           table_count db < length (column db) \<and>
           table_count db < length (table_col_count db) \<and>
           table_count db < length (col_type db) \<and>
           db' = db\<lparr>column := (column db)[table_count db := column db ! table_count db @ [PList [], c0]],
                     table_col_count := (table_col_count db)[table_count db := table_col_count db ! table_count db + 1],
                     col_type := (col_type db)[table_count db := col_type db ! table_count db @ [c1]]\<rparr>"
  using assms
  by (auto simp: column_body_def and_then_def raised_in_def column_append_def col_count_incr_def
        col_type_append_def Let_def
      split: sum.splits if_splits dest!: column_name_check_Inr column_type_check_Inr)

lemma column_loop_Inr:
  "column_loop items db = Inr db' \<Longrightarrow>
     \<exists>names types.
        list_all2 (\<lambda>c v. py_getitem c 0 = Inr v) items names \<and>
        list_all2 (\<lambda>c v. py_getitem c 1 = Inr v) items types \<and>
        db' = db\<lparr>column := (column db)[table_count db := column db ! table_count db @ with_placeholders names],
                  table_col_count := (table_col_count db)[table_count db := table_col_count db ! table_count db + length items],
                  col_type := (col_type db)[table_count db := col_type db ! table_count db @ types]\<rparr>"
proof (induction items arbitrary: db)
  case Nil
  then show ?case by simp
next
  case (Cons c items)
  from Cons.prems obtain db1 where b: "column_body c db = Inr db1" and l: "column_loop items db1 = Inr db'"
    by (auto simp: and_then_def split: sum.splits)
  from column_body_Inr[OF b] obtain c0 c1 where
    c0: "py_getitem c 0 = Inr c0" and c1: "py_getitem c 1 = Inr c1"
    and r: "table_count db < length (column db)" "table_count db < length (table_col_count db)"
       "table_count db < length (col_type db)"
    and db1: "db1 = db\<lparr>column := (column db)[table_count db := column db ! table_count db @ [PList [], c0]],
                     table_col_count := (table_col_count db)[table_count db := table_col_count db ! table_count db + 1],
                     col_type := (col_type db)[table_count db := col_type db ! table_count db @ [c1]]\<rparr>"
    by blast
  from Cons.IH[OF l] obtain names types where
    n: "list_all2 (\<lambda>c v. py_getitem c 0 = Inr v) items names"
    and t: "list_all2 (\<lambda>c v. py_getitem c 1 = Inr v) items types"
    and db': "db' = db1\<lparr>column := (column db1)[table_count db1 := column db1 ! table_count db1 @ with_placeholders names],
                  table_col_count := (table_col_count db1)[table_count db1 := table_col_count db1 ! table_count db1 + length items],
                  col_type := (col_type db1)[table_count db1 := col_type db1 ! table_count db1 @ types]\<rparr>"
    by blast
  have "list_all2 (\<lambda>c v. py_getitem c 0 = Inr v) (c # items) (c0 # names)" using c0 n by simp
  moreover have "list_all2 (\<lambda>c v. py_getitem c 1 = Inr v) (c # items) (c1 # types)" using c1 t by simp
  moreover have "db' = db\<lparr>column := (column db)[table_count db := column db ! table_count db @ with_placeholders (c0 # names)],
                  table_col_count := (table_col_count db)[table_count db := table_col_count db ! table_count db + length (c # items)],
                  col_type := (col_type db)[table_count db := col_type db ! table_count db @ (c1 # types)]\<rparr>"
    using r by (simp add: db' db1)
  ultimately show ?case by blast
qed

lemma update_last: "length xs = i \<Longrightarrow> (xs @ [a])[i := b] = xs @ [b]"
  by auto

lemma table_body_Inr:
  assumes "table_body tables table db = Inr db'"
    and "length (column db) = table_count db"
    and "length (col_type db) = table_count db"
    and "length (table_col_count db) = table_count db"
  shows "\<exists>t0 items names types.
           py_getitem table 0 = Inr t0 \<and>
           table_name_check t0 (table_names db) = Inr PNone \<and>
           column_defs tables (table_count db) = Some items \<and>
           list_all2 (\<lambda>c v. py_getitem c 0 = Inr v) items names \<and>
           list_all2 (\<lambda>c v. py_getitem c 1 = Inr v) items types \<and>
           db' = db\<lparr>table_names := table_names db @ [t0],
                     column := column db @ [with_placeholders names],
                     col_type := col_type db @ [types],
                     table_col_count := table_col_count db @ [length items],
                     table_count := table_count db + 1\<rparr>"
proof -
  from assms(1) obtain t0 r where t0: "py_getitem table 0 = Inr t0"
    and r: "table_name_check t0 (table_names db) = Inr r"
    by (auto simp: table_body_def and_then_def raised_in_def split: sum.splits)
  from r have rn: "r = PNone" by (rule table_name_check_Inr)
  define db1 where "db1 = register_table t0 db"
  from assms(1) t0 r rn obtain entry cols items db2 where
    e: "py_getitem tables (table_count db) = Inr entry"
    and c: "py_getitem entry 1 = Inr cols"
    and i: "py_iter cols = Some items"
    and l: "column_loop items db1 = Inr db2"
    and d: "db' = db2\<lparr>table_count := table_count db2 + 1\<rparr>"
    by (auto simp: table_body_def and_then_def raised_in_def Let_def db1_def register_table_def
          split: sum.splits option.splits)
  from column_loop_Inr[OF l] obtain names types where
    n: "list_all2 (\<lambda>c v. py_getitem c 0 = Inr v) items names"
    and t: "list_all2 (\<lambda>c v. py_getitem c 1 = Inr v) items types"
    and db2: "db2 = db1\<lparr>column := (column db1)[table_count db1 := column db1 ! table_count db1 @ with_placeholders names],
                  table_col_count := (table_col_count db1)[table_count db1 := table_col_count db1 ! table_count db1 + length items],
                  col_type := (col_type db1)[table_count db1 := col_type db1 ! table_count db1 @ types]\<rparr>"
    by blast
  have cd: "column_defs tables (table_count db) = Some items"
    using e c i by (simp add: column_defs_def)
  have "db' = db\<lparr>table_names := table_names db @ [t0],
                     column := column db @ [with_placeholders names],
                     col_type := col_type db @ [types],
                     table_col_count := table_col_count db @ [length items],
                     table_count := table_count db + 1\<rparr>"
    using assms(2-4) by (simp add: d db2 db1_def register_table_def nth_append update_last)
  with t0 r rn cd n t show ?thesis by blast
qed

lemma table_body_inv:
  assumes "table_body tables table db = Inr db'" and "schema_inv tables db"
  shows "schema_inv tables db' \<and> table_count db' = table_count db + 1"
proof -
  from assms(2) have len: "length (table_names db) = table_count db"
    "length (column db) = table_count db" "length (col_type db) = table_count db"
    "length (table_col_count db) = table_count db"
    and pv: "pk db = 1" "version db = 0"
    and old: "\<And>i. i < table_count db \<Longrightarrow> table_built tables db i"
    by (simp_all add: schema_inv_def)
  from table_body_Inr[OF assms(1) len(2-4)] obtain t0 items names types where
    cd: "column_defs tables (table_count db) = Some items"
    and n: "list_all2 (\<lambda>c v. py_getitem c 0 = Inr v) items names"
    and t: "list_all2 (\<lambda>c v. py_getitem c 1 = Inr v) items types"
    and db': "db' = db\<lparr>table_names := table_names db @ [t0],
                     column := column db @ [with_placeholders names],
                     col_type := col_type db @ [types],
                     table_col_count := table_col_count db @ [length items],
                     table_count := table_count db + 1\<rparr>"
    by blast
  have new: "table_built tables db' (table_count db)"
    unfolding table_built_def using cd n t len by (auto simp: db' nth_append)
  have keep: "table_built tables db' i" if "i < table_count db" for i
    using old[OF that] that len by (simp add: table_built_def db' nth_append)
  have "table_built tables db' i" if "i < table_count db'" for i
  proof (cases "i < table_count db")
    case True then show ?thesis by (rule keep)
  next
    case False
    with that have "i = table_count db" by (simp add: db')
    with new show ?thesis by simp
  qed
  then show ?thesis using len pv by (simp add: schema_inv_def db')
qed

lemma table_loop_inv:
  "table_loop tables items db = Inr db' \<Longrightarrow> schema_inv tables db \<Longrightarrow>
     schema_inv tables db' \<and> table_count db' = table_count db + length items"
proof (induction items arbitrary: db)
  case Nil then show ?case by simp
next
  case (Cons t items)
  from Cons.prems(1) obtain db1 where b: "table_body tables t db = Inr db1"
    and l: "table_loop tables items db1 = Inr db'"
    by (auto simp: and_then_def split: sum.splits)
  from table_body_inv[OF b Cons.prems(2)]
  have i1: "schema_inv tables db1" and c1: "table_count db1 = table_count db + 1" by simp_all
  from Cons.IH[OF l i1] c1 show ?case by simp
qed

lemma schema_inv_start: "schema_inv tables (empty_database\<lparr>schema := tables\<rparr>)"
  by (simp add: schema_inv_def empty_database_def)

lemma Database_init_inv:
  assumes "snd (Database_init tables) = Inr db"
  shows "schema_inv tables db \<and> (\<forall>items. py_iter tables = Some items \<longrightarrow> table_count db = length items)"
proof (cases "py_iter tables")
  case None
  with assms have "db = empty_database"
    by (simp add: Database_init_def iterable_check_def)
  then show ?thesis using None by (simp add: schema_inv_def empty_database_def)
next
  case (Some items)
  with assms have l: "table_loop tables items (empty_database\<lparr>schema := tables\<rparr>) = Inr db"
    by (simp add: Database_init_def iterable_check_def)
  from table_loop_inv[OF l schema_inv_start] Some show ?thesis
    by (simp add: empty_database_def)
qed

subsection \<open>Reaching a failing type check\<close>

lemma column_loop_append:
  "column_loop (xs @ ys) db = and_then (column_loop xs db) (column_loop ys)"
  by (induction xs arbitrary: db) (auto simp: and_then_def split: sum.splits)

lemma table_loop_append:
  "table_loop tables (xs @ ys) db = and_then (table_loop tables xs db) (table_loop tables ys)"
  by (induction xs arbitrary: db) (auto simp: and_then_def split: sum.splits)

lemma py_iter_getitem:
  "py_iter v = Some xs \<Longrightarrow> i < length xs \<Longrightarrow> py_getitem v i = Inr (xs ! i)"
  by (cases v) auto

lemma column_loop_keeps:
  assumes "column_loop items db = Inr db'"
  shows "table_count db' = table_count db" and "table_names db' = table_names db"
    and "length (column db') = length (column db)"
    and "length (table_col_count db') = length (table_col_count db)"
  using column_loop_Inr[OF assms] by auto

lemma column_body_type_error:
  assumes "table_count db < length (column db)"
    and "table_count db < length (table_col_count db)"
    and "py_getitem col 0 = Inr c0"
    and "column_name_check c0 (column db ! table_count db @ [PList []]) = Inr r"
    and "py_getitem col 1 = Inr ct"
    and "column_type_check ct (table_count db) (table_names db) = Inl e"
  shows "\<exists>dbf. column_body col db = Inl (e, dbf) \<and> table_count dbf = table_count db \<and>
           table_names dbf = table_names db"
proof -
  from assms(4) have "r = PNone" by (rule column_name_check_Inr)
  with assms show ?thesis
    by (simp add: column_body_def and_then_def raised_in_def column_append_def col_count_incr_def Let_def)
qed

lemma column_loop_type_error:
  assumes "column_loop cpre db = Inr db2"
    and "table_count db < length (column db)"
    and "table_count db < length (table_col_count db)"
    and "py_getitem col 0 = Inr c0"
    and "column_name_check c0 (column db2 ! table_count db2 @ [PList []]) = Inr r"
    and "py_getitem col 1 = Inr ct"
    and "column_type_check ct (table_count db) (table_names db) = Inl e"
  shows "\<exists>dbf. column_loop (cpre @ col # cpost) db = Inl (e, dbf) \<and>
           table_count dbf = table_count db \<and> table_names dbf = table_names db"
proof -
  note k = column_loop_keeps[OF assms(1)]
  from column_body_type_error[of db2 col c0 r ct e] assms k
  obtain dbf where "column_body col db2 = Inl (e, dbf)" "table_count dbf = table_count db"
    "table_names dbf = table_names db" by auto
  then show ?thesis using assms(1) by (simp add: column_loop_append and_then_def)
qed

lemma builder_type_error:
  assumes "py_iter tables = Some (pre @ t # post)"
    and "table_loop tables pre (empty_database\<lparr>schema := tables\<rparr>) = Inr db1"
    and "py_getitem t 0 = Inr t0"
    and "table_name_check t0 (table_names db1) = Inr r"
    and "py_getitem t 1 = Inr cols"
    and "py_iter cols = Some (cpre @ col # cpost)"
    and "column_loop cpre (register_table t0 db1) = Inr db2"
    and "py_getitem col 0 = Inr c0"
    and "column_name_check c0 (column db2 ! table_count db2 @ [PList []]) = Inr r'"
    and "py_getitem col 1 = Inr ct"
    and "column_type_check ct (length pre) (table_names db1 @ [t0]) = Inl e"
  shows "\<exists>db. snd (Database_init tables) = Inl (e, db) \<and> table_count db = length pre \<and>
           table_names db = table_names db1 @ [t0]"
proof -
  from table_loop_inv[OF assms(2) schema_inv_start]
  have inv: "schema_inv tables db1" and tc: "table_count db1 = length pre"
    by (simp_all add: empty_database_def)
  from inv tc have len: "length (column db1) = length pre" "length (table_col_count db1) = length pre"
    by (simp_all add: schema_inv_def)
  have e: "py_getitem tables (length pre) = Inr t"
    using py_iter_getitem[OF assms(1), of "length pre"] by simp
  from assms(4) have rn: "r = PNone" by (rule table_name_check_Inr)
  let ?db = "register_table t0 db1"
  have "\<exists>dbf. column_loop (cpre @ col # cpost) ?db = Inl (e, dbf) \<and>
           table_count dbf = table_count ?db \<and> table_names dbf = table_names ?db"
    using assms(7) _ _ assms(8,9,10)
  proof (rule column_loop_type_error)
    show "table_count ?db < length (column ?db)" using tc len by (simp add: register_table_def)
    show "table_count ?db < length (table_col_count ?db)" using tc len by (simp add: register_table_def)
    show "column_type_check ct (table_count ?db) (table_names ?db) = Inl e"
      using assms(11) tc by (simp add: register_table_def)
  qed
  then obtain dbf where f: "column_loop (cpre @ col # cpost) ?db = Inl (e, dbf)"
    and k: "table_count dbf = length pre" "table_names dbf = table_names db1 @ [t0]"
    using tc by (auto simp: register_table_def)
  have "table_body tables t db1 = Inl (e, dbf)"
    using assms(3,4,5,6) rn e f tc
    by (simp add: table_body_def and_then_def raised_in_def register_table_def)
  then have "table_loop tables (pre @ t # post) (empty_database\<lparr>schema := tables\<rparr>) = Inl (e, dbf)"
    using assms(2) by (simp add: table_loop_append and_then_def)
  then have "snd (Database_init tables) = Inl (e, dbf)"
    using assms(1) by (simp add: Database_init_def iterable_check_def)
  with k show ?thesis by blast
qed

subsection \<open>Handles\<close>

lemma reachable_version: "reachable chk db \<Longrightarrow> version db = 0"
proof (induction rule: reachable.induct)
  case (constructed tables db)
  then show ?case using Database_init_inv[of tables db] by (simp add: schema_inv_def)
next
  case (inserted db table_name vals res db')
  then show ?case
    by (auto simp: Database_insert_def and_then_def raised_in_def Let_def split: sum.splits if_splits)
qed

lemma re_match_name_outside:
  assumes "\<exists>c \<in> set (if last s = char_of (10::nat) then butlast s else s). \<not> word_char c"
  shows "\<not> re_match_name s"
proof -
  have "\<not> list_all word_char s"
    using assms by (auto simp: list_all_iff split: if_splits dest: in_set_butlastD)
  moreover have "\<not> (s \<noteq> [] \<and> last s = char_of (10::nat) \<and> list_all word_char (butlast s))"
    using assms by (auto simp: list_all_iff split: if_splits)
  ultimately show ?thesis by (simp add: re_match_name_def)
qed

lemma users_posts_result: "Database_init users_posts = ([], Inr users_posts_db)"
  by (simp add: users_posts_db_def users_posts_def model_defs)

subsection \<open>The names that the builder stores\<close>









section \<open>The claims\<close>

text \<open>
  C1. On a handle (one that construction returned, after any calls of \<^verbatim>\<open>insert\<close>), a
  call of \<^verbatim>\<open>insert\<close> whose values pass the row check returns the pair of the row
  counter after it was incremented and the version 0; a second such call on the same handle
  returns a greater counter and again the version 0.
\<close>

theorem insert_returns_next_pk:
  assumes "reachable chk db"
    and "chk t v (table_names db) (table_col_count db) (col_type db) = Inr r" and "not_False r"
    and "chk t' v' (table_names db) (table_col_count db) (col_type db) = Inr r'" and "not_False r'"
  shows "Database_insert chk db t v = Inr ((pk db + 1, 0), db\<lparr>pk := pk db + 1\<rparr>) \<and>
         Database_insert chk (db\<lparr>pk := pk db + 1\<rparr>) t' v' =
           Inr ((pk db + 2, 0), db\<lparr>pk := pk db + 2\<rparr>) \<and>
         pk db + 1 < pk db + 2"
  using assms reachable_version[OF assms(1)]
  by (simp add: Database_insert_def and_then_def raised_in_def)

text \<open>Two inserts into the handle built from \<^verbatim>\<open>[("t", [])]\<close> return \<open>(2, 0)\<close> and
  \<open>(3, 0)\<close>.\<close>

theorem insert_returns_next_pk_witness:
  "snd (Database_init (PList [PTuple [PStr ''t'', PList []]])) = Inr one_table \<and>
   Database_insert known_table one_table (PStr ''t'') (PList []) =
     Inr ((2, 0), one_table\<lparr>pk := 2\<rparr>) \<and>
   Database_insert known_table (one_table\<lparr>pk := 2\<rparr>) (PStr ''t'') (PTuple []) =
     Inr ((3, 0), one_table\<lparr>pk := 3\<rparr>)"
proof -
  have d: "snd (Database_init (PList [PTuple [PStr ''t'', PList []]])) = Inr one_table"
    by (simp add: model_defs one_table_def)
  then have r: "reachable known_table one_table" by (rule reachable.constructed)
  have c: "known_table (PStr ''t'') x (table_names one_table) (table_col_count one_table)
             (col_type one_table) = Inr PNone" for x
    by (simp add: known_table_def one_table_def)
  have n: "not_False PNone" by simp
  from insert_returns_next_pk[OF r c n c n, of "PList []" "PTuple []"] d show ?thesis
    by (simp add: one_table_def)
qed

text \<open>
  C2, as the code has it. When the table definitions are not iterable, construction raises
  nothing: \<^verbatim>\<open>iterable_check\<close> prints \<^verbatim>\<open>item is not iterable\<close>, no table definition
  is processed, and the handle is returned with the fields as they were initialised: no
  tables, table count 0.
\<close>

theorem not_iterable_gives_empty_handle:
  "py_iter tables = None \<Longrightarrow>
     Database_init tables = ([''item is not iterable''], Inr empty_database) \<and>
     raised (snd (Database_init tables)) = None \<and>
     table_count empty_database = 0 \<and> table_names empty_database = []"
  by (simp add: Database_init_def iterable_check_def empty_database_def raised_def)

text \<open>An instance: \<^verbatim>\<open>Database(None)\<close>.\<close>

theorem not_iterable_gives_empty_handle_witness:
  "py_iter PNone = None \<and>
   Database_init PNone = ([''item is not iterable''], Inr empty_database) \<and>
   raised (snd (Database_init PNone)) = None \<and>
   table_count empty_database = 0 \<and> table_names empty_database = []"
  using not_iterable_gives_empty_handle[of PNone] by (simp add: raised_def)

text \<open>\<^verbatim>\<open>Database(5)\<close> returns a handle; no exception of kind \<open>NotIterable\<close> is
  raised.\<close>

theorem not_iterable_counterexample:
  "snd (Database_init (PInt 5)) = Inr empty_database \<and>
   raised (snd (Database_init (PInt 5))) \<noteq> Some NotIterable"
  by (simp add: Database_init_def iterable_check_def raised_def)

text \<open>
  C3. Construction from
  \<^verbatim>\<open>[("users", [("name", str), ("age", int)]), ("posts", [("author", "users")])]\<close>
  succeeds; the table count is 2, the table names are \<^verbatim>\<open>users\<close>, \<^verbatim>\<open>posts\<close> in this
  order, and the type of the column \<^verbatim>\<open>author\<close> of \<^verbatim>\<open>posts\<close>, accepted by the type
  check as the name of a registered table, is a foreign key to \<^verbatim>\<open>users\<close>.
\<close>

theorem users_posts_schema:
  "Database_init users_posts = ([], Inr users_posts_db) \<and>
   table_count users_posts_db = 2 \<and>
   table_names users_posts_db = [PStr ''users'', PStr ''posts''] \<and>
   column users_posts_db ! 1 = with_placeholders [PStr ''author''] \<and>
   col_type users_posts_db ! 1 = [PStr ''users''] \<and>
   column_type_check (PStr ''users'') 1 (table_names users_posts_db) = Inr PNone \<and>
   type_of_marker (col_type users_posts_db ! 1 ! 0) = Some (ForeignKey ''users'')"
  by (simp add: users_posts_result) (simp add: users_posts_db_def column_type_check_def)

text \<open>
  C4, as the code has it. Take a table definition with a column whose declared type is the
  string equal to the table's own name, and suppose every check before the type check of
  that column passes: the earlier tables are built, the table's name is accepted, the
  earlier columns of the table are accepted, and the column's own name is accepted. Then
  construction fails with kind \<open>SelfReferencingForeignKey\<close>, and when it fails the table
  count is the number of earlier tables: the table is registered by name but not counted.
\<close>

theorem self_reference_rejected:
  assumes "py_iter tables = Some (pre @ t # post)"
    and "table_loop tables pre (empty_database\<lparr>schema := tables\<rparr>) = Inr db1"
    and "py_getitem t 0 = Inr (PStr n)"
    and "table_name_check (PStr n) (table_names db1) = Inr r"
    and "py_getitem t 1 = Inr cols"
    and "py_iter cols = Some (cpre @ col # cpost)"
    and "column_loop cpre (register_table (PStr n) db1) = Inr db2"
    and "py_getitem col 0 = Inr c0"
    and "column_name_check c0 (column db2 ! table_count db2 @ [PList []]) = Inr r'"
    and "py_getitem col 1 = Inr (PStr n)"
  shows "\<exists>db. snd (Database_init tables) = Inl (SelfReferencingForeignKey, db) \<and>
           table_count db = length pre \<and>
           table_names db = table_names db1 @ [PStr n] \<and>
           length (table_names db) = length pre + 1"
proof -
  from table_loop_inv[OF assms(2) schema_inv_start]
  have l: "length (table_names db1) = length pre"
    by (simp add: empty_database_def schema_inv_def)
  then have "column_type_check (PStr n) (length pre) (table_names db1 @ [PStr n]) =
               Inl SelfReferencingForeignKey"
    by (simp add: column_type_check_def nth_append)
  from builder_type_error[OF assms this] l show ?thesis by auto
qed

text \<open>The example \<^verbatim>\<open>[("a", [("self_ref", "a")])]\<close>: the failure leaves the table count
  at 0.\<close>

theorem self_reference_rejected_witness:
  "\<exists>db. snd (Database_init self_ref) = Inl (SelfReferencingForeignKey, db) \<and>
           table_count db = 0 \<and> table_names db = [PStr ''a'']"
proof -
  let ?t = "PTuple [PStr ''a'', PList [PTuple [PStr ''self_ref'', PStr ''a'']]]"
  let ?col = "PTuple [PStr ''self_ref'', PStr ''a'']"
  let ?db1 = "empty_database\<lparr>schema := self_ref\<rparr>"
  have 1: "py_iter self_ref = Some ([] @ ?t # [])" by (simp add: self_ref_def)
  have 2: "table_loop self_ref [] ?db1 = Inr ?db1" by simp
  have 3: "py_getitem ?t 0 = Inr (PStr ''a'')" by simp
  have 4: "table_name_check (PStr ''a'') (table_names ?db1) = Inr PNone"
    by (simp add: model_defs)
  have 5: "py_getitem ?t 1 = Inr (PList [?col])" by simp
  have 6: "py_iter (PList [?col]) = Some ([] @ ?col # [])" by simp
  have 7: "column_loop [] (register_table (PStr ''a'') ?db1) = Inr (register_table (PStr ''a'') ?db1)"
    by simp
  have 8: "py_getitem ?col 0 = Inr (PStr ''self_ref'')" by simp
  have 9: "column_name_check (PStr ''self_ref'')
             (column (register_table (PStr ''a'') ?db1) ! table_count (register_table (PStr ''a'') ?db1)
                @ [PList []]) = Inr PNone"
    by (simp add: model_defs)
  have 10: "py_getitem ?col 1 = Inr (PStr ''a'')" by simp
  from self_reference_rejected[OF 1 2 3 4 5 6 7 8 9 10] show ?thesis
    by (auto simp: empty_database_def)
qed

text \<open>In \<^verbatim>\<open>[("a", [("1x", "a")])]\<close> the column refers to its own table, and construction
  fails on the column's name, with kind \<open>MustStartWithLetter\<close>.\<close>

theorem self_reference_counterexample:
  "raised (snd (Database_init bad_column_self_ref)) = Some MustStartWithLetter"
  by (simp add: bad_column_self_ref_def raised_def model_defs)

text \<open>
  C5, as the code has it. A string whose first character is a letter and that holds a
  character outside \<^verbatim>\<open>[A-Za-z0-9_]\<close>, a newline that ends the string not counted, fails
  validation as a table name and as a column name with kind \<open>InvalidCharacters\<close>.
\<close>

theorem invalid_characters_after_letter:
  assumes "s \<noteq> []" and "isalpha_char (hd s)"
    and "\<exists>c \<in> set (if last s = char_of (10::nat) then butlast s else s). \<not> word_char c"
  shows "table_name_check (PStr s) names = Inl InvalidCharacters \<and>
         column_name_check (PStr s) names = Inl InvalidCharacters"
  using assms(1,2) re_match_name_outside[OF assms(3)]
  by (simp add: table_name_check_def column_name_check_def hd_conv_nth)

text \<open>An instance: the name \<^verbatim>\<open>a-b\<close>, also where the same name is already present.\<close>

theorem invalid_characters_after_letter_witness:
  "table_name_check (PStr ''a-b'') [PStr ''a-b''] = Inl InvalidCharacters \<and>
   column_name_check (PStr ''a-b'') [PStr ''a-b''] = Inl InvalidCharacters"
  using invalid_characters_after_letter[of "''a-b''" "[PStr ''a-b'']"]
  by (simp add: isalpha_char_def word_char_def)

text \<open>The name \<^verbatim>\<open>1a$\<close> holds \<^verbatim>\<open>$\<close> and fails with kind \<open>MustStartWithLetter\<close>,
  the check that comes first; the name made of \<^verbatim>\<open>a\<close> and a newline holds a newline and
  is accepted.\<close>

theorem invalid_characters_counterexample:
  "table_name_check (PStr ''1a$'') [] = Inl MustStartWithLetter \<and>
   table_name_check (PStr [CHR ''a'', char_of (10::nat)]) [] = Inr PNone"
  by (simp add: table_name_check_def isalpha_char_def word_char_def re_match_name_def)

text \<open>
  C6. The claim is that the empty string fails validation with kind
  \<open>MustStartWithLetter\<close>. The code reads the first character before it tests it: on the
  empty string \<^verbatim>\<open>table_name[0]\<close> and \<^verbatim>\<open>col_name[0]\<close> raise \<^verbatim>\<open>IndexError\<close>.
\<close>

theorem empty_name_raises_IndexError:
  "table_name_check (PStr []) names = Inl IndexError \<and>
   column_name_check (PStr []) names = Inl IndexError"
  by (simp add: table_name_check_def column_name_check_def)

text \<open>
  C7, as the code has it. A string-valued column type that is not the owning table's name
  and not among the table names accumulated so far fails type resolution with kind
  \<open>UnknownForeignKeyTarget\<close>. In the builder the names accumulated are those of the
  earlier tables and of the owning table, so a column whose type names a table declared
  later makes construction fail with this kind, whatever the later tables are, where every
  check before the type check of that column passes: the earlier tables are built, the
  table's name is accepted, the earlier columns of the table are accepted, and the column's
  own name is accepted.
\<close>

theorem unknown_foreign_key_target:
  "(i < length names \<longrightarrow> PStr u \<noteq> names ! i \<longrightarrow> PStr u \<notin> set names \<longrightarrow>
      column_type_check (PStr u) i names = Inl UnknownForeignKeyTarget) \<and>
   (py_iter tables = Some (pre @ t # post) \<longrightarrow>
    table_loop tables pre (empty_database\<lparr>schema := tables\<rparr>) = Inr db1 \<longrightarrow>
    py_getitem t 0 = Inr t0 \<longrightarrow>
    table_name_check t0 (table_names db1) = Inr r \<longrightarrow>
    py_getitem t 1 = Inr cols \<longrightarrow>
    py_iter cols = Some (cpre @ col # cpost) \<longrightarrow>
    column_loop cpre (register_table t0 db1) = Inr db2 \<longrightarrow>
    py_getitem col 0 = Inr c0 \<longrightarrow>
    column_name_check c0 (column db2 ! table_count db2 @ [PList []]) = Inr r' \<longrightarrow>
    py_getitem col 1 = Inr (PStr v) \<longrightarrow>
    PStr v \<noteq> t0 \<longrightarrow> PStr v \<notin> set (table_names db1) \<longrightarrow>
      (\<exists>db. snd (Database_init tables) = Inl (UnknownForeignKeyTarget, db) \<and>
         table_count db = length pre \<and> table_names db = table_names db1 @ [t0]))"
proof -
  have f: "column_type_check (PStr w) j ns = Inl UnknownForeignKeyTarget"
    if "j < length ns" "PStr w \<noteq> ns ! j" "PStr w \<notin> set ns" for w j ns
    using that by (simp add: column_type_check_def)
  have g: "\<exists>db. snd (Database_init tables) = Inl (UnknownForeignKeyTarget, db) \<and>
         table_count db = length pre \<and> table_names db = table_names db1 @ [t0]"
    if h: "py_iter tables = Some (pre @ t # post)"
      "table_loop tables pre (empty_database\<lparr>schema := tables\<rparr>) = Inr db1"
      "py_getitem t 0 = Inr t0"
      "table_name_check t0 (table_names db1) = Inr r"
      "py_getitem t 1 = Inr cols"
      "py_iter cols = Some (cpre @ col # cpost)"
      "column_loop cpre (register_table t0 db1) = Inr db2"
      "py_getitem col 0 = Inr c0"
      "column_name_check c0 (column db2 ! table_count db2 @ [PList []]) = Inr r'"
      "py_getitem col 1 = Inr (PStr v)"
      and n: "PStr v \<noteq> t0" "PStr v \<notin> set (table_names db1)"
  proof -
    from table_loop_inv[OF h(2) schema_inv_start]
    have l: "length (table_names db1) = length pre"
      by (simp add: empty_database_def schema_inv_def)
    have "column_type_check (PStr v) (length pre) (table_names db1 @ [t0]) =
            Inl UnknownForeignKeyTarget"
      using l n by (intro f) (simp_all add: nth_append)
    from builder_type_error[OF h this] show ?thesis .
  qed
  from f g show ?thesis by blast
qed

text \<open>An instance: in
  \<^verbatim>\<open>[("posts", [("title", str), ("author", "users")]), ("users", [("name", str)])]\<close>
  the table \<^verbatim>\<open>users\<close> is declared after the column that refers to it.\<close>

theorem unknown_foreign_key_target_witness:
  "column_type_check (PStr ''users'') 0 [PStr ''posts''] = Inl UnknownForeignKeyTarget \<and>
   (\<exists>db. snd (Database_init forward_ref) = Inl (UnknownForeignKeyTarget, db) \<and>
      table_count db = 0 \<and> table_names db = [PStr ''posts''])"
proof -
  let ?c1 = "PTuple [PStr ''title'', PStrType]"
  let ?col = "PTuple [PStr ''author'', PStr ''users'']"
  let ?t = "PTuple [PStr ''posts'', PList [?c1, ?col]]"
  let ?u = "PTuple [PStr ''users'', PList [PTuple [PStr ''name'', PStrType]]]"
  let ?db1 = "empty_database\<lparr>schema := forward_ref\<rparr>"
  let ?db2 = "empty_database\<lparr>schema := forward_ref, table_names := [PStr ''posts''],
                 column := [[PList [], PStr ''title'']], col_type := [[PStrType]],
                 table_col_count := [1]\<rparr>"
  have 1: "py_iter forward_ref = Some ([] @ ?t # [?u])" by (simp add: forward_ref_def)
  have 2: "table_loop forward_ref [] ?db1 = Inr ?db1" by simp
  have 3: "py_getitem ?t 0 = Inr (PStr ''posts'')" by simp
  have 4: "table_name_check (PStr ''posts'') (table_names ?db1) = Inr PNone"
    by (simp add: model_defs)
  have 5: "py_getitem ?t 1 = Inr (PList [?c1, ?col])" by simp
  have 6: "py_iter (PList [?c1, ?col]) = Some ([?c1] @ ?col # [])" by simp
  have 7: "column_loop [?c1] (register_table (PStr ''posts'') ?db1) = Inr ?db2"
    by (simp add: model_defs)
  have 8: "py_getitem ?col 0 = Inr (PStr ''author'')" by simp
  have 9: "column_name_check (PStr ''author'') (column ?db2 ! table_count ?db2 @ [PList []]) = Inr PNone"
    by (simp add: model_defs)
  have 10: "py_getitem ?col 1 = Inr (PStr ''users'')" by simp
  have 11: "PStr ''users'' \<noteq> PStr ''posts''" by simp
  have 12: "PStr ''users'' \<notin> set (table_names ?db1)" by (simp add: empty_database_def)
  have 13: "(0::nat) < length [PStr ''posts'']" "PStr ''users'' \<noteq> [PStr ''posts''] ! 0"
    "PStr ''users'' \<notin> set [PStr ''posts'']" by simp_all
  note inst = unknown_foreign_key_target[where i = 0 and names = "[PStr ''posts'']" and u = "''users''"
      and tables = forward_ref and pre = "[]" and t = ?t and post = "[?u]" and ?db1.0 = ?db1
      and ?t0.0 = "PStr ''posts''" and r = PNone and cols = "PList [?c1, ?col]" and cpre = "[?c1]"
      and col = ?col and cpost = "[]" and ?db2.0 = ?db2 and ?c0.0 = "PStr ''author''" and r' = PNone
      and v = "''users''"]
  from inst[THEN conjunct1, rule_format, OF 13]
       inst[THEN conjunct2, rule_format, OF 1 2 3 4 5 6 7 8 9 10 11 12]
  show ?thesis by (auto simp: empty_database_def)
qed

text \<open>In \<^verbatim>\<open>[("posts", [("1x", "users")]), ("users", [])]\<close> the column refers to a
  table declared later, and construction fails on the column's name, with kind
  \<open>MustStartWithLetter\<close>.\<close>

theorem unknown_foreign_key_target_counterexample:
  "raised (snd (Database_init bad_column_forward_ref)) = Some MustStartWithLetter"
  by (simp add: bad_column_forward_ref_def raised_def model_defs)





text \<open>
  C10. After construction has succeeded the table count is the length of each of
  \<open>table_names\<close>, \<open>table_col_count\<close>, \<open>column\<close> and \<open>col_type\<close> (and the number of table
  definitions); for each table index \<open>i\<close>, \<open>table_col_count[i]\<close> is the number of the
  column definitions of table \<open>i\<close> and \<open>col_type[i]\<close> holds their declared types in the
  order of declaration.
\<close>

theorem schema_arrays_agree:
  assumes "snd (Database_init tables) = Inr db"
  shows "table_count db = length (table_names db) \<and>
         table_count db = length (table_col_count db) \<and>
         table_count db = length (column db) \<and>
         table_count db = length (col_type db) \<and>
         (\<forall>items. py_iter tables = Some items \<longrightarrow> table_count db = length items) \<and>
         (\<forall>i<table_count db. \<exists>items.
             column_defs tables i = Some items \<and>
             table_col_count db ! i = length items \<and>
             list_all2 (\<lambda>c t. py_getitem c 1 = Inr t) items (col_type db ! i))"
proof -
  from Database_init_inv[OF assms] have inv: "schema_inv tables db"
    and n: "\<forall>items. py_iter tables = Some items \<longrightarrow> table_count db = length items" by simp_all
  have "\<exists>items. column_defs tables i = Some items \<and>
             table_col_count db ! i = length items \<and>
             list_all2 (\<lambda>c t. py_getitem c 1 = Inr t) items (col_type db ! i)"
    if "i < table_count db" for i
    using inv that by (auto simp: schema_inv_def table_built_def)
  with inv n show ?thesis by (simp add: schema_inv_def)
qed

text \<open>An instance: the arrays of the first example.\<close>

theorem schema_arrays_agree_witness:
  "snd (Database_init users_posts) = Inr users_posts_db \<and>
   table_count users_posts_db = 2 \<and>
   length (table_names users_posts_db) = 2 \<and>
   length (column users_posts_db) = 2 \<and>
   table_col_count users_posts_db = [2, 1] \<and>
   col_type users_posts_db = [[PStrType, PIntType], [PStr ''users'']] \<and>
   column_defs users_posts 1 = Some [PTuple [PStr ''author'', PStr ''users'']]"
proof -
  have d: "snd (Database_init users_posts) = Inr users_posts_db"
    by (simp add: users_posts_result)
  from schema_arrays_agree[OF d] d show ?thesis
    by (simp add: users_posts_db_def users_posts_def column_defs_def)
qed

end
